theory Spec2Isabelle
  imports Complex_Main
begin

section \<open>Python values\<close>

text \<open>
  A Python \<open>str\<close> is a sequence of Unicode code points, so it is modelled as a list of
  naturals; \<open>lit\<close> turns an ASCII literal of the source into such a list. Python floats
  are abstracted to reals.
\<close>

type_synonym pystr = "nat list"

definition lit :: "string \<Rightarrow> pystr" where
  "lit s = map of_char s"

text \<open>
  What \<open>response.json()\<close> can return: the decoded JSON value. A dict is the list of
  its items, one per key, in iteration order.
\<close>

datatype json =
    JNull
  | JBool bool
  | JInt int
  | JFloat real
  | JStr pystr
  | JArr "json list"
  | JObj "(pystr \<times> json) list"

text \<open>
  Exceptions. \<open>RequestException m\<close> stands for any instance of
  \<open>requests.exceptions.RequestException\<close> or of a subclass of it, with \<open>str(e) = m\<close>;
  \<open>OtherException m\<close> for an instance of any class outside that hierarchy that the
  network layer raises.
\<close>

datatype exn =
    RequestException pystr
  | AttributeError
  | TypeError
  | OtherException pystr

text \<open>Truthiness, as tested by \<open>not x\<close>.\<close>

fun py_truthy :: "json \<Rightarrow> bool" where
  "py_truthy JNull = False"
| "py_truthy (JBool b) = b"
| "py_truthy (JInt i) = (i \<noteq> 0)"
| "py_truthy (JFloat x) = (x \<noteq> 0)"
| "py_truthy (JStr s) = (s \<noteq> [])"
| "py_truthy (JArr xs) = (xs \<noteq> [])"
| "py_truthy (JObj kvs) = (kvs \<noteq> [])"

text \<open>\<open>d.get(k, dflt)\<close> on a dict, and on an arbitrary value (only a dict has \<open>get\<close>).\<close>

definition dict_get :: "(pystr \<times> json) list \<Rightarrow> pystr \<Rightarrow> json \<Rightarrow> json" where
  "dict_get d k dflt = (case map_of d k of None \<Rightarrow> dflt | Some v \<Rightarrow> v)"

fun py_get :: "json \<Rightarrow> pystr \<Rightarrow> json \<Rightarrow> exn + json" where
  "py_get (JObj d) k dflt = Inr (dict_get d k dflt)"
| "py_get _ k dflt = Inl AttributeError"

text \<open>
  \<open>for article in articles\<close>: a list yields its elements, a string its characters, a
  dict its keys; nothing else is iterable.
\<close>

fun py_iter :: "json \<Rightarrow> exn + json list" where
  "py_iter (JArr xs) = Inr xs"
| "py_iter (JStr s) = Inr (map (\<lambda>c. JStr [c]) s)"
| "py_iter (JObj kvs) = Inr (map (\<lambda>kv. JStr (fst kv)) kvs)"
| "py_iter _ = Inl TypeError"

text \<open>\<open>str.isspace\<close> on one code point, and \<open>str.strip()\<close>.\<close>

definition is_space :: "nat \<Rightarrow> bool" where
  "is_space c \<longleftrightarrow>
     (9 \<le> c \<and> c \<le> 13) \<or> (28 \<le> c \<and> c \<le> 32) \<or> c = 133 \<or> c = 160 \<or> c = 5760 \<or>
     (8192 \<le> c \<and> c \<le> 8202) \<or> c = 8232 \<or> c = 8233 \<or> c = 8239 \<or> c = 8287 \<or>
     c = 12288"

definition py_strip :: "pystr \<Rightarrow> pystr" where
  "py_strip s = rev (dropWhile is_space (rev (dropWhile is_space s)))"

text \<open>\<open>round(x, n)\<close>: to the nearest multiple of \<open>10 ^ -n\<close>, ties to the even one.\<close>

definition round_half_even :: "real \<Rightarrow> int" where
  "round_half_even x =
     (let f = \<lfloor>x\<rfloor>; d = x - of_int f
      in if d < 1 / 2 then f
         else if 1 / 2 < d then f + 1
         else if even f then f else f + 1)"

definition py_round :: "real \<Rightarrow> nat \<Rightarrow> real" where
  "py_round x n = of_int (round_half_even (x * 10 ^ n)) / 10 ^ n"

section \<open>The external capabilities\<close>

text \<open>
  The three library calls of the \<open>try\<close> block, \<open>requests.get(url)\<close>,
  \<open>response.raise_for_status()\<close> and \<open>response.json()\<close>, each either raise or let the
  next one run; the last one yields the decoded body.
\<close>

datatype http_reply =
    Get_raises exn
  | Status_raises exn
  | Json_raises exn
  | Json_ok json

text \<open>
  \<open>http\<close> is the network as seen through \<open>requests\<close>, \<open>polarity\<close> is
  \<open>TextBlob(text).sentiment.polarity\<close>, and \<open>str_other\<close> is Python's \<open>str()\<close> on
  numbers, lists and dicts (the cases of an f-string field that the model does not
  spell out).
\<close>

record externals =
  http :: "pystr \<Rightarrow> http_reply"
  polarity :: "pystr \<Rightarrow> real"
  str_other :: "json \<Rightarrow> pystr"

text \<open>The value of an f-string field \<open>{v}\<close>.\<close>

fun py_format :: "externals \<Rightarrow> json \<Rightarrow> pystr" where
  "py_format ext (JStr s) = s"
| "py_format ext JNull = lit ''None''"
| "py_format ext (JBool b) = (if b then lit ''True'' else lit ''False'')"
| "py_format ext v = str_other ext v"

section \<open>The pipeline\<close>

datatype diagnostic = Warning pystr | Error pystr

record analyzed_article =
  title :: json
  source :: json
  sentiment_score :: real
  sentiment_label :: pystr
  url :: json

text \<open>
  One run of \<open>fetch_and_analyze_news\<close>: the URLs requested, the diagnostics shown, and
  either the exception that escapes or the rows of the data frame returned.
\<close>

record run =
  requests_sent :: "pystr list"
  diagnostics :: "diagnostic list"
  outcome :: "exn + analyzed_article list"

definition build_url :: "pystr \<Rightarrow> pystr \<Rightarrow> pystr" where
  "build_url api_key query =
     lit ''https://gnews.io/api/v4/search?q='' @ query @ lit ''&lang=en&token='' @ api_key"

text \<open>Lines 45 to 53: the text scored, and the label of a polarity.\<close>

definition build_text :: "externals \<Rightarrow> json \<Rightarrow> json \<Rightarrow> pystr" where
  "build_text ext title_v description =
     py_strip (py_format ext title_v @ lit '' '' @ py_format ext description)"

definition sentiment_of :: "real \<Rightarrow> pystr" where
  "sentiment_of p =
     (if p > 1 / 10 then lit ''Positive''
      else if p < - (1 / 10) then lit ''Negative''
      else lit ''Neutral'')"

text \<open>
  One iteration of the loop body: an exception, \<open>None\<close> for \<open>continue\<close>, or the row
  appended.
\<close>

definition analyze_article :: "externals \<Rightarrow> json \<Rightarrow> exn + analyzed_article option" where
  "analyze_article ext article =
     (case py_get article (lit ''title'') (JStr []) of
        Inl e \<Rightarrow> Inl e
      | Inr title_v \<Rightarrow>
     (case py_get article (lit ''description'') (JStr []) of
        Inl e \<Rightarrow> Inl e
      | Inr description \<Rightarrow>
     (case py_get article (lit ''url'') (JStr []) of
        Inl e \<Rightarrow> Inl e
      | Inr url_v \<Rightarrow>
     (case py_get article (lit ''source'') (JObj []) of
        Inl e \<Rightarrow> Inl e
      | Inr src \<Rightarrow>
     (case py_get src (lit ''name'') (JStr (lit ''Unknown'')) of
        Inl e \<Rightarrow> Inl e
      | Inr source_v \<Rightarrow>
          if \<not> py_truthy title_v then Inr None
          else
            let text = build_text ext title_v description;
                p = polarity ext text
            in Inr (Some \<lparr>title = title_v, source = source_v,
                          sentiment_score = py_round p 3,
                          sentiment_label = sentiment_of p,
                          url = url_v\<rparr>))))))"

fun analyze_loop ::
  "externals \<Rightarrow> json list \<Rightarrow> analyzed_article list \<Rightarrow> exn + analyzed_article list" where
  "analyze_loop ext [] analyzed_articles = Inr analyzed_articles"
| "analyze_loop ext (article # rest) analyzed_articles =
     (case analyze_article ext article of
        Inl e \<Rightarrow> Inl e
      | Inr None \<Rightarrow> analyze_loop ext rest analyzed_articles
      | Inr (Some row) \<Rightarrow> analyze_loop ext rest (analyzed_articles @ [row]))"

text \<open>
  The \<open>except requests.exceptions.RequestException\<close> clause: it handles that class
  only, anything else propagates.
\<close>

definition on_exception :: "pystr \<Rightarrow> exn \<Rightarrow> run" where
  "on_exception u e =
     (case e of
        RequestException m \<Rightarrow>
          \<lparr>requests_sent = [u],
           diagnostics = [Error (lit ''Error fetching news: '' @ m)],
           outcome = Inr []\<rparr>
      | _ \<Rightarrow> \<lparr>requests_sent = [u], diagnostics = [], outcome = Inl e\<rparr>)"

definition fetch_and_analyze_news :: "externals \<Rightarrow> pystr \<Rightarrow> pystr \<Rightarrow> run" where
  "fetch_and_analyze_news ext api_key query =
     (let u = build_url api_key query in
      case http ext u of
        Get_raises e \<Rightarrow> on_exception u e
      | Status_raises e \<Rightarrow> on_exception u e
      | Json_raises e \<Rightarrow> on_exception u e
      | Json_ok data \<Rightarrow>
          (case py_get data (lit ''articles'') (JArr []) of
             Inl e \<Rightarrow> on_exception u e
           | Inr articles \<Rightarrow>
               if \<not> py_truthy articles then
                 \<lparr>requests_sent = [u],
                  diagnostics = [Warning (lit ''No articles found for this query.'')],
                  outcome = Inr []\<rparr>
               else
                 (case py_iter articles of
                    Inl e \<Rightarrow> \<lparr>requests_sent = [u], diagnostics = [], outcome = Inl e\<rparr>
                  | Inr arts \<Rightarrow>
                      \<lparr>requests_sent = [u], diagnostics = [],
                       outcome = analyze_loop ext arts []\<rparr>)))"

section \<open>Raw articles and their titles\<close>

text \<open>
  The title the loop body reads from a raw article (\<open>article.get("title", "")\<close>), the
  test \<open>if not title: continue\<close> turned around, and the sequence the loop runs over
  for a given reply of the network.
\<close>

fun raw_title :: "json \<Rightarrow> json" where
  "raw_title (JObj kvs) = dict_get kvs (lit ''title'') (JStr [])"
| "raw_title _ = JStr []"

definition has_title :: "json \<Rightarrow> bool" where
  "has_title article = py_truthy (raw_title article)"

fun body_articles :: "json \<Rightarrow> json list" where
  "body_articles (JObj kvs) =
     (case py_iter (dict_get kvs (lit ''articles'') (JArr [])) of
        Inl e \<Rightarrow> []
      | Inr arts \<Rightarrow> arts)"
| "body_articles _ = []"

fun raw_articles :: "http_reply \<Rightarrow> json list" where
  "raw_articles (Json_ok data) = body_articles data"
| "raw_articles _ = []"

section \<open>The cache around the function\<close>






section \<open>Sample inputs\<close>

definition article_good :: json where
  "article_good =
     JObj [(lit ''title'', JStr (lit ''Good day'')),
           (lit ''description'', JStr (lit ''fine'')),
           (lit ''url'', JStr (lit ''u1'')),
           (lit ''source'', JObj [(lit ''name'', JStr (lit ''Wire''))])]"

definition article_empty_title :: json where
  "article_empty_title =
     JObj [(lit ''title'', JStr []), (lit ''description'', JStr (lit ''untitled''))]"

definition article_no_title :: json where
  "article_no_title = JObj [(lit ''description'', JStr (lit ''anonymous''))]"

definition article_null_description :: json where
  "article_null_description =
     JObj [(lit ''title'', JStr (lit ''Bad'')), (lit ''description'', JNull)]"

definition article_no_description :: json where
  "article_no_description = JObj [(lit ''title'', JStr (lit ''Bad''))]"

definition article_null_source :: json where
  "article_null_source =
     JObj [(lit ''title'', JStr (lit ''Odd'')), (lit ''source'', JNull)]"

definition sample_body :: json where
  "sample_body =
     JObj [(lit ''articles'',
            JArr [article_good, article_empty_title, article_no_title,
                  article_null_description])]"

definition null_source_body :: json where
  "null_source_body = JObj [(lit ''articles'', JArr [article_good, article_null_source])]"

text \<open>
  A world that answers every request with the given reply, and whose scorer knows one
  text.
\<close>

definition fixture :: "http_reply \<Rightarrow> externals" where
  "fixture reply =
     \<lparr>http = (\<lambda>u. reply),
      polarity = (\<lambda>t. if t = lit ''Good day fine'' then 1004 / 10000 else - (1 / 2)),
      str_other = (\<lambda>v. [])\<rparr>"

definition row_good :: analyzed_article where
  "row_good =
     \<lparr>title = JStr (lit ''Good day''), source = JStr (lit ''Wire''),
      sentiment_score = 1 / 10, sentiment_label = lit ''Positive'',
      url = JStr (lit ''u1'')\<rparr>"

definition row_bad :: analyzed_article where
  "row_bad =
     \<lparr>title = JStr (lit ''Bad''), source = JStr (lit ''Unknown''),
      sentiment_score = - (1 / 2), sentiment_label = lit ''Negative'',
      url = JStr []\<rparr>"

section \<open>Literals\<close>

lemma lit_eq_iff: "lit a = lit b \<longleftrightarrow> a = b"
  unfolding lit_def by (simp add: inj_map_eq_map inj_of_char)

lemma lit_eq_Nil_iff: "lit a = [] \<longleftrightarrow> a = []"
  unfolding lit_def by simp

section \<open>Bucketing\<close>

text \<open>
  C1. The label of a polarity \<open>p\<close> is "Positive" exactly when \<open>p > 0.1\<close>, "Negative"
  exactly when \<open>p < -0.1\<close>, and "Neutral" exactly when \<open>-0.1 \<le> p \<le> 0.1\<close>; both
  boundary values are labelled "Neutral".
\<close>

theorem sentiment_of_thresholds:
  "(sentiment_of p = lit ''Positive'' \<longleftrightarrow> p > 1 / 10) \<and>
   (sentiment_of p = lit ''Negative'' \<longleftrightarrow> p < - (1 / 10)) \<and>
   (sentiment_of p = lit ''Neutral'' \<longleftrightarrow> - (1 / 10) \<le> p \<and> p \<le> 1 / 10) \<and>
   sentiment_of (1 / 10) = lit ''Neutral'' \<and>
   sentiment_of (- (1 / 10)) = lit ''Neutral''"
  by (auto simp: sentiment_of_def lit_eq_iff)

theorem sentiment_of_thresholds_witness:
  "sentiment_of (1 / 2) = lit ''Positive'' \<and>
   sentiment_of (- (1 / 2)) = lit ''Negative'' \<and>
   sentiment_of 0 = lit ''Neutral''"
  using sentiment_of_thresholds [of "1 / 2"] sentiment_of_thresholds [of "- (1 / 2)"]
    sentiment_of_thresholds [of 0]
  by simp

section \<open>Evaluating the samples\<close>

lemmas eval_defs =
  analyze_article_def dict_get_def build_text_def py_strip_def is_space_def lit_def
  py_round_def round_half_even_def sentiment_of_def fixture_def Let_def

lemma http_fixture: "http (fixture reply) u = reply"
  by (simp add: fixture_def)

lemma analyze_good: "analyze_article (fixture reply) article_good = Inr (Some row_good)"
  by (simp add: article_good_def row_good_def eval_defs)

lemma analyze_empty_title: "analyze_article (fixture reply) article_empty_title = Inr None"
  by (simp add: article_empty_title_def eval_defs)

lemma analyze_no_title: "analyze_article (fixture reply) article_no_title = Inr None"
  by (simp add: article_no_title_def eval_defs)

lemma analyze_null_description:
  "analyze_article (fixture reply) article_null_description = Inr (Some row_bad)"
  by (simp add: article_null_description_def row_bad_def eval_defs)

lemma analyze_no_description:
  "analyze_article (fixture reply) article_no_description = Inr (Some row_bad)"
  by (simp add: article_no_description_def row_bad_def eval_defs)

lemma analyze_null_source:
  "analyze_article (fixture reply) article_null_source = Inl AttributeError"
  by (simp add: article_null_source_def eval_defs)

lemma sample_run:
  "fetch_and_analyze_news (fixture (Json_ok sample_body)) api_key query =
     \<lparr>requests_sent = [build_url api_key query], diagnostics = [],
      outcome = Inr [row_good, row_bad]\<rparr>"
  by (simp add: fetch_and_analyze_news_def sample_body_def Let_def dict_get_def
      lit_eq_iff lit_eq_Nil_iff http_fixture analyze_good analyze_empty_title
      analyze_no_title analyze_null_description)

lemma sample_has_title:
  "has_title article_good" "\<not> has_title article_empty_title"
  "\<not> has_title article_no_title" "has_title article_null_description"
  by (simp_all add: has_title_def article_good_def article_empty_title_def
      article_no_title_def article_null_description_def dict_get_def lit_eq_iff
      lit_eq_Nil_iff)

lemma sample_body_articles:
  "body_articles sample_body =
     [article_good, article_empty_title, article_no_title, article_null_description]"
  by (simp add: sample_body_def dict_get_def)

section \<open>The loop body\<close>

lemma py_get_Inl: "py_get v k d = Inl e \<Longrightarrow> e = AttributeError"
  by (cases v) auto

lemma analyze_article_JObj:
  "analyze_article ext (JObj kvs) =
     (case py_get (dict_get kvs (lit ''source'') (JObj [])) (lit ''name'')
             (JStr (lit ''Unknown'')) of
        Inl e \<Rightarrow> Inl e
      | Inr source_v \<Rightarrow>
          if \<not> has_title (JObj kvs) then Inr None
          else
            Inr (Some \<lparr>title = raw_title (JObj kvs), source = source_v,
              sentiment_score =
                py_round (polarity ext (build_text ext (raw_title (JObj kvs))
                  (dict_get kvs (lit ''description'') (JStr [])))) 3,
              sentiment_label =
                sentiment_of (polarity ext (build_text ext (raw_title (JObj kvs))
                  (dict_get kvs (lit ''description'') (JStr [])))),
              url = dict_get kvs (lit ''url'') (JStr [])\<rparr>))"
  by (simp add: analyze_article_def has_title_def Let_def split: sum.splits)

lemma analyze_article_Inl: "analyze_article ext a = Inl e \<Longrightarrow> e = AttributeError"
  by (cases a)
    (auto simp: analyze_article_def Let_def split: sum.splits if_splits dest: py_get_Inl)

lemma analyze_article_Some:
  assumes "analyze_article ext a = Inr (Some r)"
  shows "has_title a \<and> title r = raw_title a \<and> py_truthy (title r)"
proof (cases a)
  case (JObj kvs)
  with assms show ?thesis
    by (auto simp: analyze_article_JObj has_title_def split: sum.splits if_splits)
qed (use assms in \<open>simp_all add: analyze_article_def\<close>)

lemma analyze_article_None:
  assumes "analyze_article ext a = Inr None"
  shows "\<not> has_title a"
proof (cases a)
  case (JObj kvs)
  with assms show ?thesis
    by (auto simp: analyze_article_JObj split: sum.splits if_splits)
qed (simp_all add: has_title_def)

text \<open>The loop body returns exactly on a dict whose \<open>source\<close> is a dict or absent.\<close>

lemma analyze_article_returns_iff:
  "(\<exists>r. analyze_article ext a = Inr r) \<longleftrightarrow>
     (\<exists>kvs d. a = JObj kvs \<and> dict_get kvs (lit ''source'') (JObj []) = JObj d)"
proof (cases a)
  case (JObj kvs)
  show ?thesis
    by (cases "dict_get kvs (lit ''source'') (JObj [])")
      (simp_all add: JObj analyze_article_JObj)
qed (simp_all add: analyze_article_def)

text \<open>For a title that is a string or absent, the test is the one for emptiness.\<close>

lemma has_title_string:
  "map_of kvs (lit ''title'') = Some (JStr t) \<Longrightarrow> has_title (JObj kvs) \<longleftrightarrow> t \<noteq> []"
  by (simp add: has_title_def dict_get_def)

lemma has_title_missing: "map_of kvs (lit ''title'') = None \<Longrightarrow> \<not> has_title (JObj kvs)"
  by (simp add: has_title_def dict_get_def)

section \<open>The loop\<close>

lemma analyze_loop_Inr:
  "analyze_loop ext arts acc = Inr rs \<Longrightarrow>
     \<exists>rows. rs = acc @ rows \<and>
       list_all2 (\<lambda>r a. analyze_article ext a = Inr (Some r)) rows (filter has_title arts)"
proof (induction arts arbitrary: acc)
  case Nil
  then show ?case by simp
next
  case (Cons a arts)
  show ?case
  proof (cases "analyze_article ext a")
    case (Inl e)
    with Cons.prems show ?thesis by simp
  next
    case (Inr res)
    show ?thesis
    proof (cases res)
      case None
      with Inr Cons.prems have "analyze_loop ext arts acc = Inr rs" by simp
      from Cons.IH [OF this] None Inr show ?thesis
        by (auto dest: analyze_article_None)
    next
      case (Some row)
      with Inr Cons.prems have "analyze_loop ext arts (acc @ [row]) = Inr rs" by simp
      from Cons.IH [OF this] obtain rows where
        "rs = (acc @ [row]) @ rows"
        "list_all2 (\<lambda>r a. analyze_article ext a = Inr (Some r)) rows (filter has_title arts)"
        by blast
      moreover have "has_title a"
        using Some Inr by (auto dest: analyze_article_Some)
      ultimately show ?thesis
        using Some Inr by (intro exI [of _ "row # rows"]) simp
    qed
  qed
qed

lemma analyze_loop_Inl: "analyze_loop ext arts acc = Inl e \<Longrightarrow> e = AttributeError"
  by (induction arts arbitrary: acc)
    (auto split: sum.splits option.splits dest: analyze_article_Inl)

lemma analyze_loop_raises:
  "a \<in> set arts \<Longrightarrow> analyze_article ext a = Inl e \<Longrightarrow>
     \<exists>e'. analyze_loop ext arts acc = Inl e'"
  by (induction arts arbitrary: acc) (auto split: sum.splits option.splits)

text \<open>The loop returns exactly when the body returns on every article.\<close>

lemma analyze_loop_returns_iff:
  "(\<exists>rs. analyze_loop ext arts acc = Inr rs) \<longleftrightarrow>
     (\<forall>a\<in>set arts. \<exists>r. analyze_article ext a = Inr r)"
proof
  assume "\<exists>rs. analyze_loop ext arts acc = Inr rs"
  then show "\<forall>a\<in>set arts. \<exists>r. analyze_article ext a = Inr r"
    by (metis analyze_loop_raises sum.exhaust sum.distinct(1))
next
  assume "\<forall>a\<in>set arts. \<exists>r. analyze_article ext a = Inr r"
  then show "\<exists>rs. analyze_loop ext arts acc = Inr rs"
    by (induction arts arbitrary: acc) (auto split: sum.splits option.splits)
qed

lemma rows_titles:
  "list_all2 (\<lambda>r a. analyze_article ext a = Inr (Some r)) rows arts \<Longrightarrow>
     map title rows = map raw_title arts"
  by (induction rows arts rule: list_all2_induct) (auto dest: analyze_article_Some)

section \<open>The whole function\<close>

lemma on_exception_Inr: "outcome (on_exception u e) = Inr rs \<Longrightarrow> rs = []"
  by (cases e) (auto simp: on_exception_def)

lemma py_iter_falsy: "\<not> py_truthy v \<Longrightarrow> py_iter v = Inr arts \<Longrightarrow> arts = []"
  by (cases v) auto

text \<open>A run that returns a data frame returns what the loop makes of the raw articles.\<close>

lemma fetch_returns_loop:
  assumes "outcome (fetch_and_analyze_news ext api_key query) = Inr rs"
  shows "analyze_loop ext (raw_articles (http ext (build_url api_key query))) [] = Inr rs"
proof (cases "http ext (build_url api_key query)")
  case (Json_ok data)
  show ?thesis
  proof (cases data)
    case (JObj kvs)
    show ?thesis
    proof (cases "py_truthy (dict_get kvs (lit ''articles'') (JArr []))")
      case True
      with assms Json_ok JObj show ?thesis
        by (auto simp: fetch_and_analyze_news_def Let_def split: sum.splits)
    next
      case False
      with assms Json_ok JObj show ?thesis
        by (auto simp: fetch_and_analyze_news_def Let_def split: sum.splits
            dest: py_iter_falsy)
    qed
  qed (use assms Json_ok in \<open>auto simp: fetch_and_analyze_news_def Let_def on_exception_def\<close>)
qed (use assms in \<open>auto simp: fetch_and_analyze_news_def Let_def dest: on_exception_Inr\<close>)

lemma fetch_returns_rows:
  assumes "outcome (fetch_and_analyze_news ext api_key query) = Inr rs"
  shows "list_all2 (\<lambda>r a. analyze_article ext a = Inr (Some r)) rs
           (filter has_title (raw_articles (http ext (build_url api_key query))))"
  using analyze_loop_Inr [OF fetch_returns_loop [OF assms]] by simp

section \<open>Rounding\<close>

lemma round_half_even_close: "\<bar>of_int (round_half_even y) - y\<bar> \<le> 1 / 2"
  unfolding round_half_even_def Let_def by (auto simp: abs_le_iff)

lemma py_round_3_close: "\<bar>py_round x 3 - x\<bar> \<le> 1 / 2000"
proof -
  have "\<bar>of_int (round_half_even (x * 1000)) - x * 1000\<bar> \<le> 1 / 2"
    by (rule round_half_even_close)
  then show ?thesis
    unfolding py_round_def by (simp add: abs_le_iff field_simps)
qed

section \<open>Stripping\<close>

lemma py_strip_kept:
  assumes "t \<noteq> []" "\<not> is_space (hd t)" "w \<noteq> []" "\<not> is_space (last w)"
  shows "py_strip (t @ w) = t @ w"
proof -
  have "dropWhile is_space (t @ w) = t @ w"
    using assms(1,2) by (cases t) simp_all
  moreover have "dropWhile is_space (rev (t @ w)) = rev (t @ w)"
    using assms(3,4) by (cases w rule: rev_cases) simp_all
  ultimately show ?thesis
    by (simp add: py_strip_def)
qed

lemma length_py_strip: "length (py_strip s) \<le> length s"
proof -
  have "length (dropWhile is_space (rev (dropWhile is_space s)))
      \<le> length (rev (dropWhile is_space s))"
    by (rule length_dropWhile_le)
  also have "\<dots> \<le> length s"
    by (simp add: length_dropWhile_le)
  finally show ?thesis
    by (simp add: py_strip_def)
qed

section \<open>Score and label of a row\<close>

text \<open>
  C2 (as amended). For every article the loop body turns into a row, the stored
  sentiment score is the scorer's polarity rounded to 3 decimal places (so within
  0.0005 of it), while the label is the bucket of the unrounded polarity.
\<close>

theorem score_rounded_label_unrounded:
  assumes "analyze_article ext (JObj kvs) = Inr (Some r)"
  shows "let p = polarity ext (build_text ext (dict_get kvs (lit ''title'') (JStr []))
                   (dict_get kvs (lit ''description'') (JStr [])))
         in sentiment_score r = py_round p 3 \<and>
            \<bar>sentiment_score r - p\<bar> \<le> 1 / 2000 \<and>
            sentiment_label r = sentiment_of p"
proof -
  define p where "p = polarity ext (build_text ext (dict_get kvs (lit ''title'') (JStr []))
    (dict_get kvs (lit ''description'') (JStr [])))"
  from assms have "sentiment_score r = py_round p 3" and "sentiment_label r = sentiment_of p"
    by (auto simp: analyze_article_JObj p_def split: sum.splits if_splits)
  moreover have "\<bar>py_round p 3 - p\<bar> \<le> 1 / 2000"
    by (rule py_round_3_close)
  ultimately show ?thesis
    unfolding Let_def p_def [symmetric] by simp
qed

theorem score_rounded_label_unrounded_witness:
  "analyze_article (fixture (Json_ok sample_body)) article_good = Inr (Some row_good) \<and>
   sentiment_score row_good = py_round (1004 / 10000) 3 \<and>
   \<bar>sentiment_score row_good - 1004 / 10000\<bar> \<le> 1 / 2000 \<and>
   sentiment_label row_good = sentiment_of (1004 / 10000)"
  using score_rounded_label_unrounded
    [OF analyze_good [of "Json_ok sample_body", unfolded article_good_def]]
    analyze_good [of "Json_ok sample_body"]
  by (simp add: eval_defs)

text \<open>
  C2 (as stated) fails: the scorer returns 0.1004 for the first sample article, the
  stored score is 0.1, whose bucket is "Neutral", and the row is labelled "Positive".
\<close>

theorem label_of_rounded_score_counterexample:
  "outcome (fetch_and_analyze_news (fixture (Json_ok sample_body)) (lit ''key'') (lit ''news''))
     = Inr [row_good, row_bad] \<and>
   polarity (fixture (Json_ok sample_body)) (lit ''Good day fine'') = 1004 / 10000 \<and>
   sentiment_score row_good = 1 / 10 \<and>
   sentiment_of (sentiment_score row_good) = lit ''Neutral'' \<and>
   sentiment_label row_good = lit ''Positive'' \<and>
   sentiment_label row_good \<noteq> sentiment_of (sentiment_score row_good)"
proof (intro conjI)
  show "outcome (fetch_and_analyze_news (fixture (Json_ok sample_body)) (lit ''key'') (lit ''news''))
      = Inr [row_good, row_bad]"
    by (simp add: sample_run)
  show "polarity (fixture (Json_ok sample_body)) (lit ''Good day fine'') = 1004 / 10000"
    by (simp add: fixture_def)
  show "sentiment_score row_good = 1 / 10"
    by (simp add: row_good_def)
  show "sentiment_of (sentiment_score row_good) = lit ''Neutral''"
    by (simp add: row_good_def sentiment_of_def)
  show "sentiment_label row_good = lit ''Positive''"
    by (simp add: row_good_def)
  show "sentiment_label row_good \<noteq> sentiment_of (sentiment_score row_good)"
    by (simp add: row_good_def sentiment_of_def lit_eq_iff)
qed

section \<open>The title filter\<close>

text \<open>
  C3. In every run that returns a data frame, its length is the number of raw articles
  with a non-empty title, every row has a non-empty title, and no row comes from a raw
  article whose title is empty or missing.
\<close>

theorem untitled_articles_excluded:
  assumes "outcome (fetch_and_analyze_news ext api_key query) = Inr rs"
  shows "length rs = length (filter has_title (raw_articles (http ext (build_url api_key query)))) \<and>
         (\<forall>r\<in>set rs. py_truthy (title r)) \<and>
         (\<forall>a\<in>set (raw_articles (http ext (build_url api_key query))).
            \<not> has_title a \<longrightarrow> (\<forall>r\<in>set rs. analyze_article ext a \<noteq> Inr (Some r)))"
proof -
  let ?arts = "filter has_title (raw_articles (http ext (build_url api_key query)))"
  have rows: "list_all2 (\<lambda>r a. analyze_article ext a = Inr (Some r)) rs ?arts"
    by (rule fetch_returns_rows [OF assms])
  have "length rs = length ?arts"
    by (rule list_all2_lengthD [OF rows])
  moreover have "py_truthy (title r)" if "r \<in> set rs" for r
  proof -
    from that rows obtain a where "analyze_article ext a = Inr (Some r)"
      by (auto simp: list_all2_conv_all_nth in_set_conv_nth)
    then show ?thesis
      using analyze_article_Some by blast
  qed
  moreover have "analyze_article ext a \<noteq> Inr (Some r)" if "\<not> has_title a" for a r
    using that analyze_article_Some by blast
  ultimately show ?thesis
    by blast
qed

theorem untitled_articles_excluded_witness:
  "outcome (fetch_and_analyze_news (fixture (Json_ok sample_body)) (lit ''key'') (lit ''news''))
     = Inr [row_good, row_bad] \<and>
   raw_articles (Json_ok sample_body) =
     [article_good, article_empty_title, article_no_title, article_null_description] \<and>
   length [row_good, row_bad] = length [article_good, article_null_description] \<and>
   py_truthy (title row_good) \<and> py_truthy (title row_bad) \<and>
   analyze_article (fixture (Json_ok sample_body)) article_empty_title \<noteq> Inr (Some row_good) \<and>
   analyze_article (fixture (Json_ok sample_body)) article_no_title \<noteq> Inr (Some row_bad)"
  using untitled_articles_excluded
    [of "fixture (Json_ok sample_body)" "lit ''key''" "lit ''news''" "[row_good, row_bad]"]
  by (simp add: sample_run sample_body_articles sample_has_title http_fixture
      row_good_def row_bad_def lit_eq_Nil_iff)

section \<open>The two empty outcomes\<close>

text \<open>
  C4 (as amended). For every exception of class \<open>RequestException\<close> raised while
  the request is issued, its status checked or its body decoded, the run returns an
  empty data frame, shows one error diagnostic that ends with the exception's message,
  and has sent one request.
\<close>

theorem request_exception_recovered:
  assumes "http ext (build_url api_key query) = Get_raises (RequestException m) \<or>
           http ext (build_url api_key query) = Status_raises (RequestException m) \<or>
           http ext (build_url api_key query) = Json_raises (RequestException m)"
  shows "fetch_and_analyze_news ext api_key query =
           \<lparr>requests_sent = [build_url api_key query],
            diagnostics = [Error (lit ''Error fetching news: '' @ m)],
            outcome = Inr []\<rparr>"
  using assms by (auto simp: fetch_and_analyze_news_def on_exception_def Let_def)

theorem request_exception_recovered_witness:
  "http (fixture (Get_raises (RequestException (lit ''Connection refused''))))
      (build_url (lit ''key'') (lit ''news''))
     = Get_raises (RequestException (lit ''Connection refused'')) \<and>
   fetch_and_analyze_news (fixture (Get_raises (RequestException (lit ''Connection refused''))))
      (lit ''key'') (lit ''news'') =
     \<lparr>requests_sent = [build_url (lit ''key'') (lit ''news'')],
      diagnostics = [Error (lit ''Error fetching news: '' @ lit ''Connection refused'')],
      outcome = Inr []\<rparr>"
  using request_exception_recovered
    [of "fixture (Get_raises (RequestException (lit ''Connection refused'')))"
        "lit ''key''" "lit ''news''" "lit ''Connection refused''"]
  by (simp add: http_fixture)

text \<open>
  C4 (as stated) fails: an exception of another class raised while the body is decoded
  is not recovered; it escapes the function and no diagnostic is shown.
\<close>

theorem other_exception_counterexample:
  "outcome (fetch_and_analyze_news (fixture (Json_raises (OtherException (lit ''Expecting value''))))
      (lit ''key'') (lit ''news''))
     = Inl (OtherException (lit ''Expecting value'')) \<and>
   diagnostics (fetch_and_analyze_news (fixture (Json_raises (OtherException (lit ''Expecting value''))))
      (lit ''key'') (lit ''news'')) = []"
  by (simp add: fetch_and_analyze_news_def on_exception_def Let_def http_fixture)

text \<open>
  C5. For every decoded response whose \<open>articles\<close> field is absent or an empty list,
  the run returns an empty data frame and shows the "no articles" warning and no error.
\<close>

theorem no_articles_warns:
  assumes "http ext (build_url api_key query) = Json_ok (JObj kvs)"
    and "map_of kvs (lit ''articles'') = None \<or> map_of kvs (lit ''articles'') = Some (JArr [])"
  shows "fetch_and_analyze_news ext api_key query =
           \<lparr>requests_sent = [build_url api_key query],
            diagnostics = [Warning (lit ''No articles found for this query.'')],
            outcome = Inr []\<rparr>"
  using assms by (auto simp: fetch_and_analyze_news_def Let_def dict_get_def)

theorem no_articles_warns_witness:
  "map_of [(lit ''articles'', JArr [])] (lit ''articles'') = Some (JArr []) \<and>
   fetch_and_analyze_news (fixture (Json_ok (JObj [(lit ''articles'', JArr [])])))
      (lit ''key'') (lit ''news'') =
     \<lparr>requests_sent = [build_url (lit ''key'') (lit ''news'')],
      diagnostics = [Warning (lit ''No articles found for this query.'')],
      outcome = Inr []\<rparr> \<and>
   map_of ([] :: (pystr \<times> json) list) (lit ''articles'') = None \<and>
   fetch_and_analyze_news (fixture (Json_ok (JObj []))) (lit ''key'') (lit ''news'') =
     \<lparr>requests_sent = [build_url (lit ''key'') (lit ''news'')],
      diagnostics = [Warning (lit ''No articles found for this query.'')],
      outcome = Inr []\<rparr>"
  using no_articles_warns
    [of "fixture (Json_ok (JObj [(lit ''articles'', JArr [])]))" "lit ''key''" "lit ''news''"
        "[(lit ''articles'', JArr [])]"]
    no_articles_warns
    [of "fixture (Json_ok (JObj []))" "lit ''key''" "lit ''news''" "[]"]
  by (simp add: http_fixture)

section \<open>Order of the rows\<close>

text \<open>
  C6. In every run that returns a data frame, its rows are, in order and one for one,
  the rows the loop body makes of the raw articles that pass the title filter; in
  particular the titles of the rows are the titles of those articles, in input order.
\<close>

theorem rows_follow_filtered_input_order:
  assumes "outcome (fetch_and_analyze_news ext api_key query) = Inr rs"
  shows "list_all2 (\<lambda>r a. analyze_article ext a = Inr (Some r)) rs
           (filter has_title (raw_articles (http ext (build_url api_key query)))) \<and>
         map title rs =
           map raw_title (filter has_title (raw_articles (http ext (build_url api_key query))))"
  using fetch_returns_rows [OF assms] rows_titles by blast

theorem rows_follow_filtered_input_order_witness:
  "outcome (fetch_and_analyze_news (fixture (Json_ok sample_body)) (lit ''key'') (lit ''news''))
     = Inr [row_good, row_bad] \<and>
   filter has_title (raw_articles (Json_ok sample_body)) =
     [article_good, article_null_description] \<and>
   map title [row_good, row_bad] = map raw_title [article_good, article_null_description]"
  using rows_follow_filtered_input_order
    [of "fixture (Json_ok sample_body)" "lit ''key''" "lit ''news''" "[row_good, row_bad]"]
  by (simp add: sample_run sample_body_articles sample_has_title http_fixture)

section \<open>The text that is scored\<close>

text \<open>
  C7 (as amended). For every raw article with a non-empty string title that the loop
  body turns into a row, the text passed to the scorer is the title, one space, and
  the description (the empty string when the description is missing), stripped of
  leading and trailing whitespace; score and label of the row are those of that text.
\<close>

theorem scored_text_title_space_description:
  assumes "map_of kvs (lit ''title'') = Some (JStr t)"
    and "map_of kvs (lit ''description'') = None \<and> d = [] \<or>
         map_of kvs (lit ''description'') = Some (JStr d)"
    and "analyze_article ext (JObj kvs) = Inr (Some r)"
  shows "build_text ext (dict_get kvs (lit ''title'') (JStr []))
             (dict_get kvs (lit ''description'') (JStr []))
           = py_strip (t @ lit '' '' @ d) \<and>
         sentiment_score r = py_round (polarity ext (py_strip (t @ lit '' '' @ d))) 3 \<and>
         sentiment_label r = sentiment_of (polarity ext (py_strip (t @ lit '' '' @ d)))"
proof -
  have scored: "build_text ext (dict_get kvs (lit ''title'') (JStr []))
      (dict_get kvs (lit ''description'') (JStr [])) = py_strip (t @ lit '' '' @ d)"
    using assms(1,2) by (auto simp: build_text_def dict_get_def)
  from assms(3) have "sentiment_score r =
      py_round (polarity ext (build_text ext (dict_get kvs (lit ''title'') (JStr []))
        (dict_get kvs (lit ''description'') (JStr [])))) 3"
    and "sentiment_label r =
      sentiment_of (polarity ext (build_text ext (dict_get kvs (lit ''title'') (JStr []))
        (dict_get kvs (lit ''description'') (JStr []))))"
    by (auto simp: analyze_article_JObj split: sum.splits if_splits)
  with scored show ?thesis
    by simp
qed

theorem scored_text_title_space_description_witness:
  "analyze_article (fixture (Json_ok sample_body)) article_good = Inr (Some row_good) \<and>
   py_strip (lit ''Good day'' @ lit '' '' @ lit ''fine'') = lit ''Good day fine'' \<and>
   sentiment_score row_good =
     py_round (polarity (fixture (Json_ok sample_body)) (lit ''Good day fine'')) 3 \<and>
   analyze_article (fixture (Json_ok sample_body)) article_no_description
     = Inr (Some row_bad) \<and>
   py_strip (lit ''Bad'' @ lit '' '' @ []) = lit ''Bad'' \<and>
   sentiment_score row_bad =
     py_round (polarity (fixture (Json_ok sample_body)) (lit ''Bad'')) 3"
  using scored_text_title_space_description
    [of "[(lit ''title'', JStr (lit ''Good day'')),
          (lit ''description'', JStr (lit ''fine'')),
          (lit ''url'', JStr (lit ''u1'')),
          (lit ''source'', JObj [(lit ''name'', JStr (lit ''Wire''))])]"
        "lit ''Good day''" "lit ''fine''" "fixture (Json_ok sample_body)" row_good]
    scored_text_title_space_description
    [of "[(lit ''title'', JStr (lit ''Bad''))]"
        "lit ''Bad''" "[]" "fixture (Json_ok sample_body)" row_bad]
    analyze_good [of "Json_ok sample_body"]
    analyze_no_description [of "Json_ok sample_body"]
  by (simp add: article_good_def article_no_description_def lit_eq_iff)
    (simp add: py_strip_def is_space_def lit_def)

text \<open>
  C7 (as stated) fails: title and description are not concatenated directly. For the
  first sample article the scorer is given "Good day fine"; given the plain
  concatenation "Good dayfine" it would have returned another polarity, and the row
  another score.
\<close>

theorem plain_concatenation_counterexample:
  "build_text (fixture (Json_ok sample_body)) (JStr (lit ''Good day'')) (JStr (lit ''fine''))
     = lit ''Good day fine'' \<and>
   py_strip (lit ''Good day'' @ lit ''fine'') = lit ''Good dayfine'' \<and>
   lit ''Good day fine'' \<noteq> lit ''Good dayfine'' \<and>
   analyze_article (fixture (Json_ok sample_body)) article_good = Inr (Some row_good) \<and>
   sentiment_score row_good \<noteq>
     py_round (polarity (fixture (Json_ok sample_body))
       (py_strip (lit ''Good day'' @ lit ''fine''))) 3"
proof (intro conjI)
  show "build_text (fixture (Json_ok sample_body)) (JStr (lit ''Good day''))
      (JStr (lit ''fine'')) = lit ''Good day fine''"
    by (simp add: build_text_def py_strip_def is_space_def lit_def)
  show "py_strip (lit ''Good day'' @ lit ''fine'') = lit ''Good dayfine''"
    by (simp add: py_strip_def is_space_def lit_def)
  show "lit ''Good day fine'' \<noteq> lit ''Good dayfine''"
    by (simp add: lit_eq_iff)
  show "analyze_article (fixture (Json_ok sample_body)) article_good = Inr (Some row_good)"
    by (rule analyze_good)
  show "sentiment_score row_good \<noteq>
      py_round (polarity (fixture (Json_ok sample_body))
        (py_strip (lit ''Good day'' @ lit ''fine''))) 3"
    by (simp add: row_good_def eval_defs)
qed

text \<open>
  C10. For an article whose description is present but null, the null is formatted as
  the text "None": when the title is a string that does not start with whitespace,
  the scored text is the title, a space and the word "None", which is not the text an
  empty description would give.
\<close>

theorem null_description_scored_as_None:
  assumes "map_of kvs (lit ''title'') = Some (JStr t)"
    and "map_of kvs (lit ''description'') = Some JNull"
    and "\<not> is_space (hd t)"
    and "analyze_article ext (JObj kvs) = Inr (Some r)"
  shows "build_text ext (dict_get kvs (lit ''title'') (JStr []))
             (dict_get kvs (lit ''description'') (JStr []))
           = t @ lit '' None'' \<and>
         sentiment_score r = py_round (polarity ext (t @ lit '' None'')) 3 \<and>
         sentiment_label r = sentiment_of (polarity ext (t @ lit '' None'')) \<and>
         t @ lit '' None'' \<noteq> py_strip (t @ lit '' '' @ [])"
proof -
  from assms(1,4) have "t \<noteq> []"
    using analyze_article_Some [OF assms(4)] by (simp add: has_title_string)
  moreover have "\<not> is_space (last (lit '' None''))" and "lit '' None'' \<noteq> []"
    by (simp_all add: lit_def is_space_def)
  ultimately have "py_strip (t @ lit '' None'') = t @ lit '' None''"
    using assms(3) by (intro py_strip_kept)
  moreover have "lit '' '' @ lit ''None'' = lit '' None''"
    by (simp add: lit_def)
  ultimately have scored: "build_text ext (dict_get kvs (lit ''title'') (JStr []))
      (dict_get kvs (lit ''description'') (JStr [])) = t @ lit '' None''"
    using assms(1,2) by (simp add: build_text_def dict_get_def)
  from assms(4) have "sentiment_score r =
      py_round (polarity ext (build_text ext (dict_get kvs (lit ''title'') (JStr []))
        (dict_get kvs (lit ''description'') (JStr [])))) 3"
    and "sentiment_label r =
      sentiment_of (polarity ext (build_text ext (dict_get kvs (lit ''title'') (JStr []))
        (dict_get kvs (lit ''description'') (JStr []))))"
    by (auto simp: analyze_article_JObj split: sum.splits if_splits)
  moreover have "t @ lit '' None'' \<noteq> py_strip (t @ lit '' '' @ [])"
  proof
    assume "t @ lit '' None'' = py_strip (t @ lit '' '' @ [])"
    then have "length (t @ lit '' None'') = length (py_strip (t @ lit '' '' @ []))"
      by simp
    moreover have "length (py_strip (t @ lit '' '' @ [])) \<le> length (t @ lit '' '' @ [])"
      by (rule length_py_strip)
    ultimately show False
      by (simp add: lit_def)
  qed
  ultimately show ?thesis
    using scored by simp
qed

theorem null_description_scored_as_None_witness:
  "analyze_article (fixture (Json_ok sample_body)) article_null_description
     = Inr (Some row_bad) \<and>
   \<not> is_space (hd (lit ''Bad'')) \<and>
   build_text (fixture (Json_ok sample_body)) (JStr (lit ''Bad'')) JNull = lit ''Bad None'' \<and>
   sentiment_score row_bad =
     py_round (polarity (fixture (Json_ok sample_body)) (lit ''Bad None'')) 3 \<and>
   lit ''Bad None'' \<noteq> py_strip (lit ''Bad'' @ lit '' '' @ [])"
  using null_description_scored_as_None
    [of "[(lit ''title'', JStr (lit ''Bad'')), (lit ''description'', JNull)]"
        "lit ''Bad''" "fixture (Json_ok sample_body)" row_bad]
    analyze_null_description [of "Json_ok sample_body"]
  by (simp add: article_null_description_def lit_eq_iff dict_get_def)
    (simp add: py_strip_def is_space_def lit_def)

section \<open>A null source\<close>

text \<open>
  C9. Whenever a decoded response lists an article whose \<open>source\<close> field is present
  but null, the run does not return: \<open>AttributeError\<close> escapes the function, and the
  error branch is not taken (no diagnostic is shown).
\<close>

theorem null_source_raises:
  assumes "http ext (build_url api_key query) = Json_ok (JObj kvs)"
    and "map_of kvs (lit ''articles'') = Some (JArr arts)"
    and "JObj akvs \<in> set arts"
    and "map_of akvs (lit ''source'') = Some JNull"
  shows "outcome (fetch_and_analyze_news ext api_key query) = Inl AttributeError \<and>
         diagnostics (fetch_and_analyze_news ext api_key query) = []"
proof -
  have "analyze_article ext (JObj akvs) = Inl AttributeError"
    using assms(4) by (simp add: analyze_article_JObj dict_get_def)
  with assms(3) obtain e where "analyze_loop ext arts [] = Inl e"
    using analyze_loop_raises by blast
  then have loop: "analyze_loop ext arts [] = Inl AttributeError"
    using analyze_loop_Inl by blast
  from assms(3) have "arts \<noteq> []"
    by auto
  with assms(1,2) loop show ?thesis
    by (simp add: fetch_and_analyze_news_def Let_def dict_get_def)
qed

theorem null_source_raises_witness:
  "http (fixture (Json_ok null_source_body)) (build_url (lit ''key'') (lit ''news''))
     = Json_ok null_source_body \<and>
   article_null_source \<in> set [article_good, article_null_source] \<and>
   outcome (fetch_and_analyze_news (fixture (Json_ok null_source_body)) (lit ''key'') (lit ''news''))
     = Inl AttributeError \<and>
   diagnostics (fetch_and_analyze_news (fixture (Json_ok null_source_body)) (lit ''key'') (lit ''news''))
     = []"
  using null_source_raises
    [of "fixture (Json_ok null_source_body)" "lit ''key''" "lit ''news''"
        "[(lit ''articles'', JArr [article_good, article_null_source])]"
        "[article_good, article_null_source]"
        "[(lit ''title'', JStr (lit ''Odd'')), (lit ''source'', JNull)]"]
  by (simp add: http_fixture null_source_body_def article_null_source_def lit_eq_iff)

section \<open>Caching\<close>






end
